theory Spec2Isabelle
  imports Complex_Main
begin

section \<open>Motor state and output pins\<close>

text \<open>
  The program \<^verbatim>\<open>esp32_motor_micropython.py\<close> keeps two module-level variables,
  \<^verbatim>\<open>motor_running\<close> and \<^verbatim>\<open>motor_speed\<close>, and drives three output pins:
  \<^verbatim>\<open>MOTOR_PIN1 = Pin(2, Pin.OUT)\<close>, \<^verbatim>\<open>MOTOR_PIN2 = Pin(3, Pin.OUT)\<close> and
  \<^verbatim>\<open>STATUS_LED = Pin(4, Pin.OUT)\<close>. The record \<open>board\<close> holds the two variables, the
  level each pin currently outputs (\<open>True\<close> is high), and the chronological list of the
  pin writes issued so far. Python integers are unbounded, so the speed is an \<open>int\<close>.
  The text that \<^verbatim>\<open>print\<close> writes to the console is not part of the model.
\<close>

datatype pin = MOTOR_PIN1 | MOTOR_PIN2 | STATUS_LED

record board =
  motor_running :: bool
  motor_speed :: int
  pin1 :: bool
  pin2 :: bool
  led :: bool
  pin_writes :: "(pin \<times> bool) list"

text \<open>\<^verbatim>\<open>Pin.value(v)\<close>: the pin takes the level, and the write is recorded.\<close>

fun pin_value :: "pin \<Rightarrow> bool \<Rightarrow> board \<Rightarrow> board" where
  "pin_value MOTOR_PIN1 v s = s\<lparr>pin1 := v, pin_writes := pin_writes s @ [(MOTOR_PIN1, v)]\<rparr>"
| "pin_value MOTOR_PIN2 v s = s\<lparr>pin2 := v, pin_writes := pin_writes s @ [(MOTOR_PIN2, v)]\<rparr>"
| "pin_value STATUS_LED v s = s\<lparr>led := v, pin_writes := pin_writes s @ [(STATUS_LED, v)]\<rparr>"

definition pin_on :: "pin \<Rightarrow> board \<Rightarrow> board" where
  "pin_on p s = pin_value p True s"

definition pin_off :: "pin \<Rightarrow> board \<Rightarrow> board" where
  "pin_off p s = pin_value p False s"

text \<open>
  \<^verbatim>\<open>stop_motor\<close> and \<^verbatim>\<open>start_motor\<close>: the assignment to the flag, then the three pin
  writes in the order of the source.
\<close>

definition stop_motor :: "board \<Rightarrow> board" where
  "stop_motor s =
     (let s1 = s\<lparr>motor_running := False\<rparr>;
          s2 = pin_off MOTOR_PIN1 s1;
          s3 = pin_off MOTOR_PIN2 s2;
          s4 = pin_off STATUS_LED s3
      in s4)"

definition start_motor :: "board \<Rightarrow> board" where
  "start_motor s =
     (let s1 = s\<lparr>motor_running := True\<rparr>;
          s2 = pin_on MOTOR_PIN1 s1;
          s3 = pin_off MOTOR_PIN2 s2;
          s4 = pin_on STATUS_LED s3
      in s4)"

text \<open>
  The module-level initialisation: \<^verbatim>\<open>motor_running = False\<close>, \<^verbatim>\<open>motor_speed = 128\<close>.
  No pin has been written yet; the levels the pins output at that moment are not fixed by
  the program, so they are parameters.
\<close>

definition boot :: "bool \<Rightarrow> bool \<Rightarrow> bool \<Rightarrow> board" where
  "boot l1 l2 l3 =
     \<lparr>motor_running = False, motor_speed = 128, pin1 = l1, pin2 = l2, led = l3, pin_writes = []\<rparr>"

text \<open>A sequence of calls of the two operations, applied from left to right.\<close>

datatype call = Start | Stop

fun apply_call :: "board \<Rightarrow> call \<Rightarrow> board" where
  "apply_call s Start = start_motor s"
| "apply_call s Stop = stop_motor s"

definition run_calls :: "call list \<Rightarrow> board \<Rightarrow> board" where
  "run_calls cs s = foldl apply_call s cs"

section \<open>Text\<close>

text \<open>
  The request is the text that \<^verbatim>\<open>conn.recv(1024).decode('utf-8')\<close> returns, and the
  program only splits it, strips it and compares it with ASCII literals. Text is a
  \<open>string\<close>, one \<open>char\<close> for each character. The functions below are the string methods
  of MicroPython that the program calls.
\<close>

text \<open>
  \<^verbatim>\<open>str.split(sep)\<close> with a separator of one character: the text is cut at every
  occurrence of the separator, so the result has one more element than the text has
  separators, and is never empty.
\<close>

fun split_sep :: "char \<Rightarrow> string \<Rightarrow> string list" where
  "split_sep sep [] = [[]]"
| "split_sep sep (c # cs) =
     (if c = sep then [] # split_sep sep cs
      else (case split_sep sep cs of
              [] \<Rightarrow> [[c]]
            | w # ws \<Rightarrow> (c # w) # ws))"

text \<open>
  \<^verbatim>\<open>str.strip()\<close> removes leading and trailing whitespace; for MicroPython the
  whitespace characters are space, tab, line feed, vertical tab, form feed and carriage
  return.
\<close>

definition isspace :: "char \<Rightarrow> bool" where
  "isspace c \<longleftrightarrow> c \<in> set [CHR '' '', CHR 0x09, CHR 0x0A, CHR 0x0B, CHR 0x0C, CHR 0x0D]"

definition strip :: "string \<Rightarrow> string" where
  "strip s = rev (dropWhile isspace (rev (dropWhile isspace s)))"

text \<open>\<^verbatim>\<open>str(n)\<close> for an integer: decimal digits, with a minus sign when negative.\<close>

definition digit_char :: "nat \<Rightarrow> char" where
  "digit_char d = ''0123456789'' ! d"

fun str_nat :: "nat \<Rightarrow> string" where
  "str_nat n = (if n < 10 then [digit_char n] else str_nat (n div 10) @ [digit_char (n mod 10)])"

declare str_nat.simps [simp del]

definition str_int :: "int \<Rightarrow> string" where
  "str_int i = (if i < 0 then CHR ''-'' # str_nat (nat (- i)) else str_nat (nat i))"

text \<open>\<^verbatim>\<open>str(b)\<close> for a boolean, and \<^verbatim>\<open>str.lower()\<close> on ASCII letters.\<close>

definition str_bool :: "bool \<Rightarrow> string" where
  "str_bool b = (if b then ''True'' else ''False'')"

definition lower_char :: "char \<Rightarrow> char" where
  "lower_char c =
     (let n = (of_char c :: nat) in if 65 \<le> n \<and> n \<le> 90 then char_of (n + 32) else c)"

definition lower :: "string \<Rightarrow> string" where
  "lower s = map lower_char s"

section \<open>JSON values and \<^verbatim>\<open>process_alarm_command\<close>\<close>

text \<open>
  The exceptions of the model. Every one of them is an instance of \<^verbatim>\<open>Exception\<close>, so
  each \<^verbatim>\<open>except Exception\<close> of the program catches all of them.
\<close>

datatype exn = ValueError | AttributeError | UnicodeError | OSError

text \<open>
  What \<^verbatim>\<open>json.loads\<close> returns: \<^verbatim>\<open>None\<close>, a \<^verbatim>\<open>bool\<close>, an \<^verbatim>\<open>int\<close>, a
  \<^verbatim>\<open>float\<close> (here the real number it stands for), a \<^verbatim>\<open>str\<close>, a \<^verbatim>\<open>list\<close> or a
  \<^verbatim>\<open>dict\<close>. A dict is the list of its items in insertion order; its keys are strings.
\<close>

datatype json =
    JNull
  | JBool bool
  | JInt int
  | JFloat real
  | JString string
  | JArray "json list"
  | JObject "(string \<times> json) list"

text \<open>
  \<^verbatim>\<open>json.loads\<close> is a function of the MicroPython library, not of this program: it is a
  parameter of the model. It returns a value or raises.
\<close>

type_synonym json_loads = "string \<Rightarrow> exn + json"

text \<open>The truth value Python gives an object in \<^verbatim>\<open>if enabled:\<close>.\<close>

fun truthy :: "json \<Rightarrow> bool" where
  "truthy JNull = False"
| "truthy (JBool b) = b"
| "truthy (JInt i) = (i \<noteq> 0)"
| "truthy (JFloat r) = (r \<noteq> 0)"
| "truthy (JString s) = (s \<noteq> [])"
| "truthy (JArray xs) = (xs \<noteq> [])"
| "truthy (JObject kvs) = (kvs \<noteq> [])"

text \<open>\<^verbatim>\<open>dict.get(key, default)\<close>.\<close>

definition dict_get :: "(string \<times> json) list \<Rightarrow> string \<Rightarrow> json \<Rightarrow> json" where
  "dict_get d k dflt = (case map_of d k of None \<Rightarrow> dflt | Some v \<Rightarrow> v)"

text \<open>
  The body of the \<^verbatim>\<open>try\<close> block of \<^verbatim>\<open>process_alarm_command\<close>. It either raises
  (\<open>Inl\<close>, with the board as it is at that moment) or returns the response with the new
  board. \<^verbatim>\<open>alarm_data.get\<close> raises \<^verbatim>\<open>AttributeError\<close> when the value is not a dict.
  The comparisons \<^verbatim>\<open>action in ['add', 'update', 'toggle']\<close> and
  \<^verbatim>\<open>action == 'delete'\<close> hold only for a \<^verbatim>\<open>str\<close> with that text.
\<close>

definition process_alarm_command_try ::
  "json_loads \<Rightarrow> string \<Rightarrow> board \<Rightarrow> exn \<times> board + string \<times> board" where
  \<open>process_alarm_command_try loads data s =
     (case loads data of
        Inl e \<Rightarrow> Inl (e, s)
      | Inr alarm_data \<Rightarrow>
          (case alarm_data of
             JObject d \<Rightarrow>
               (let action = dict_get d ''action'' (JString []);
                    enabled = dict_get d ''enabled'' (JBool False);
                    s' = (if action \<in> set [JString ''add'', JString ''update'', JString ''toggle'']
                          then (if truthy enabled then start_motor s else stop_motor s)
                          else if action = JString ''delete'' then stop_motor s
                          else s)
                in Inr (''{"status": "success"}'', s'))
           | _ \<Rightarrow> Inl (AttributeError, s)))\<close>

definition process_alarm_command :: "json_loads \<Rightarrow> string \<Rightarrow> board \<Rightarrow> string \<times> board" where
  \<open>process_alarm_command loads data s =
     (case process_alarm_command_try loads data s of
        Inr (response, s') \<Rightarrow> (response, s')
      | Inl (e, s') \<Rightarrow> (''{"error": "Invalid data"}'', s'))\<close>

section \<open>\<^verbatim>\<open>handle_request\<close>\<close>

text \<open>
  A connection: what \<^verbatim>\<open>conn.recv(1024).decode('utf-8')\<close> yields (the request text, or
  the exception that \<^verbatim>\<open>recv\<close> or \<^verbatim>\<open>decode\<close> raises), the messages sent on it so far,
  and whether it has been closed. \<^verbatim>\<open>send\<close> and \<^verbatim>\<open>close\<close> themselves do not fail in
  the model. Every response the program builds is ASCII, so \<^verbatim>\<open>encode('utf-8')\<close> leaves
  it as it is.
\<close>

record conn =
  received :: "exn + string"
  sent :: "string list"
  closed :: bool

definition send :: "conn \<Rightarrow> string \<Rightarrow> conn" where
  "send c msg = c\<lparr>sent := sent c @ [msg]\<rparr>"

definition close :: "conn \<Rightarrow> conn" where
  "close c = c\<lparr>closed := True\<rparr>"

text \<open>
  The loop that looks for the body of a POST request:
  \<^verbatim>\<open>for i, line in enumerate(lines):
    if line.strip() == "" and i < len(lines) - 1:
        body = lines[i + 1]
        break\<close>
  started with \<^verbatim>\<open>body = ""\<close>. \<open>body_loop lines i\<close> is the value of \<^verbatim>\<open>body\<close> after the
  loop, when the loop is about to visit index \<open>i\<close>.
\<close>

function body_loop :: "string list \<Rightarrow> nat \<Rightarrow> string" where
  "body_loop lines i =
     (if i < length lines
      then (if strip (lines ! i) = [] \<and> int i < int (length lines) - 1
            then lines ! (i + 1)
            else body_loop lines (i + 1))
      else [])"
  by pat_completeness auto
termination
  by (relation "measure (\<lambda>(lines, i). length lines - i)") auto

declare body_loop.simps [simp del]

text \<open>The two pages the program formats from the board.\<close>

definition status_json :: "board \<Rightarrow> string" where
  \<open>status_json s =
     ''{"status": "online", "motor_running": '' @ lower (str_bool (motor_running s))
       @ '', "motor_speed": '' @ str_int (motor_speed s) @ ''}''\<close>

definition html_page :: "board \<Rightarrow> string" where
  \<open>html_page s =
     ''\<newline>                <html><body>\<newline>''
     @ ''                <h1>ESP32-C3 Motor Controller</h1>\<newline>''
     @ ''                <p>Motor Status: '' @ (if motor_running s then ''RUNNING'' else ''STOPPED'') @ ''</p>\<newline>''
     @ ''                <p>Speed: '' @ str_int (motor_speed s) @ ''</p>\<newline>''
     @ ''                <button onclick="fetch('/motor/start', {method:'POST'})">START MOTOR</button>\<newline>''
     @ ''                <button onclick="fetch('/motor/stop', {method:'POST'})">STOP MOTOR</button>\<newline>''
     @ ''                </body></html>\<newline>''
     @ ''                ''\<close>

text \<open>
  The chain of \<^verbatim>\<open>if\<close>/\<^verbatim>\<open>elif\<close> that routes a request: the response, its content
  type and the new board.
\<close>

definition route :: "json_loads \<Rightarrow> string \<Rightarrow> string \<Rightarrow> string \<Rightarrow> board \<Rightarrow> string \<times> string \<times> board" where
  \<open>route loads method path body s =
     (if path = ''/status'' then
        (status_json s, ''application/json'', s)
      else if path = ''/alarm'' \<and> method = ''POST'' then
        (let (response, s') = process_alarm_command loads body s
         in (response, ''application/json'', s'))
      else if path = ''/motor/start'' \<and> method = ''POST'' then
        (''{"status": "Motor started"}'', ''application/json'', start_motor s)
      else if path = ''/motor/stop'' \<and> method = ''POST'' then
        (''{"status": "Motor stopped"}'', ''application/json'', stop_motor s)
      else if path = ''/'' then
        (html_page s, ''text/html'', s)
      else
        (''{"error": "Not found"}'', ''application/json'', s))\<close>

text \<open>The framing of every response: the status line is always \<^verbatim>\<open>200 OK\<close>.\<close>

definition http_response :: "string \<Rightarrow> string \<Rightarrow> string" where
  "http_response content_type response =
     ''HTTP/1.1 200 OK\<newline>''
     @ ''Content-Type: '' @ content_type @ ''\<newline>''
     @ ''Content-Length: '' @ str_int (int (length response)) @ ''\<newline>''
     @ ''Connection: close\<newline>''
     @ ''\<newline>''
     @ response"

text \<open>
  The body of the \<^verbatim>\<open>try\<close> block of \<^verbatim>\<open>handle_request\<close>. The unpacking
  \<^verbatim>\<open>method, path, _ = request_line.split(' ')\<close> raises \<^verbatim>\<open>ValueError\<close> unless the
  split has exactly three elements.
\<close>

definition handle_request_try ::
  "json_loads \<Rightarrow> conn \<Rightarrow> board \<Rightarrow> exn \<times> conn \<times> board + conn \<times> board" where
  "handle_request_try loads c s =
     (case received c of
        Inl e \<Rightarrow> Inl (e, c, s)
      | Inr request \<Rightarrow>
          (let lines = split_sep (CHR 0x0A) request in
           if lines \<noteq> [] then
             (let request_line = lines ! 0 in
              case split_sep (CHR '' '') request_line of
                [method, path, _] \<Rightarrow>
                  (let body = (if method = ''POST'' then body_loop lines 0 else []);
                       (response, content_type, s') = route loads method path body s
                   in Inr (send c (http_response content_type response), s'))
              | _ \<Rightarrow> Inl (ValueError, c, s))
           else Inr (c, s)))"

text \<open>
  \<^verbatim>\<open>handle_request\<close>: \<^verbatim>\<open>except Exception\<close> only prints, and \<^verbatim>\<open>finally\<close> closes the
  connection on both paths.
\<close>

definition handle_request :: "json_loads \<Rightarrow> conn \<Rightarrow> board \<Rightarrow> conn \<times> board" where
  "handle_request loads c s =
     (case handle_request_try loads c s of
        Inr (c', s') \<Rightarrow> (close c', s')
      | Inl (e, c', s') \<Rightarrow> (close c', s'))"

section \<open>The accept loop of \<^verbatim>\<open>main\<close>\<close>

text \<open>
  What can happen at \<^verbatim>\<open>s.accept()\<close>: a client connects, the call raises, or the
  process is interrupted. The loop of \<^verbatim>\<open>main\<close> runs until it is interrupted; it is
  modelled on the list of the events that have occurred so far. The server records the
  board, the connections it has handled, and whether the loop is still running.
  \<^verbatim>\<open>setup_wifi\<close> and the creation of the socket are taken to succeed.
\<close>

datatype event = Accept conn | Accept_error exn | KeyboardInterrupt

record server =
  machine :: board
  handled :: "conn list"
  serving :: bool

fun main_loop :: "json_loads \<Rightarrow> event list \<Rightarrow> server \<Rightarrow> server" where
  "main_loop loads [] sv = sv"
| "main_loop loads (Accept c # evs) sv =
     (let (c', s') = handle_request loads c (machine sv)
      in main_loop loads evs (sv\<lparr>machine := s', handled := handled sv @ [c']\<rparr>))"
| "main_loop loads (Accept_error e # evs) sv = main_loop loads evs sv"
| "main_loop loads (KeyboardInterrupt # evs) sv = sv\<lparr>serving := False\<rparr>"

definition main :: "json_loads \<Rightarrow> event list \<Rightarrow> board \<Rightarrow> server" where
  "main loads evs s =
     main_loop loads evs \<lparr>machine = stop_motor s, handled = [], serving = True\<rparr>"

section \<open>A reader for a fragment of JSON\<close>

text \<open>
  To run the model on example requests, the parameter \<open>loads\<close> needs a value. The reader
  below covers a fragment of JSON: objects, arrays, strings without escape sequences,
  integers, \<^verbatim>\<open>true\<close>, \<^verbatim>\<open>false\<close> and \<^verbatim>\<open>null\<close>, with optional whitespace between the
  tokens. On a text of the fragment it returns what \<^verbatim>\<open>json.loads\<close> returns; every other
  text it reports as \<^verbatim>\<open>ValueError\<close>, so outside the fragment it stands for no library.
  It is used for the examples only: the theorems about the program hold for every \<open>loads\<close>.
\<close>

definition json_space :: "char \<Rightarrow> bool" where
  "json_space c \<longleftrightarrow> c \<in> set [CHR '' '', CHR 0x09, CHR 0x0A, CHR 0x0D]"

text \<open>Storing a key in a dict: an existing key keeps its place and takes the new value.\<close>

fun dict_set :: "string \<Rightarrow> json \<Rightarrow> (string \<times> json) list \<Rightarrow> (string \<times> json) list" where
  "dict_set k v [] = [(k, v)]"
| "dict_set k v ((k', v') # kvs) = (if k' = k then (k, v) # kvs else (k', v') # dict_set k v kvs)"

text \<open>The characters of a string up to its closing quote, and the text after the quote.\<close>

fun read_text :: "string \<Rightarrow> (string \<times> string) option" where
  "read_text [] = None"
| "read_text (c # cs) =
     (if c = CHR 0x22 then Some ([], cs)
      else if c = CHR 0x5C \<or> (of_char c :: nat) < 32 then None
      else (case read_text cs of None \<Rightarrow> None | Some (w, r) \<Rightarrow> Some (c # w, r)))"

definition is_digit :: "char \<Rightarrow> bool" where
  "is_digit c \<longleftrightarrow> c \<in> set ''0123456789''"

definition nat_of_digits :: "string \<Rightarrow> nat" where
  "nat_of_digits ds = foldl (\<lambda>n c. 10 * n + (of_char c - 48)) 0 ds"

definition read_int :: "string \<Rightarrow> (json \<times> string) option" where
  "read_int cs =
     (let negative = (cs \<noteq> [] \<and> hd cs = CHR ''-'');
          r = (if negative then tl cs else cs);
          ds = takeWhile is_digit r;
          rest = dropWhile is_digit r
      in if ds = [] \<or> (1 < length ds \<and> hd ds = CHR ''0'') \<or> (rest \<noteq> [] \<and> hd rest \<in> set ''.eE'')
         then None
         else Some (JInt (if negative then - int (nat_of_digits ds) else int (nat_of_digits ds)), rest))"

text \<open>
  The reader proper, by recursive descent. The first argument bounds the depth of the
  recursion; each level reads at least one character, so the length of the text is enough.
\<close>

fun read_value :: "nat \<Rightarrow> string \<Rightarrow> (json \<times> string) option"
  and read_items :: "nat \<Rightarrow> json list \<Rightarrow> string \<Rightarrow> (json \<times> string) option"
  and read_members :: "nat \<Rightarrow> (string \<times> json) list \<Rightarrow> string \<Rightarrow> (json \<times> string) option" where
  "read_value 0 cs = None"
| "read_value (Suc n) cs =
     (case dropWhile json_space cs of
        [] \<Rightarrow> None
      | c # r \<Rightarrow>
          if c = CHR ''{'' then
            (case dropWhile json_space r of
               [] \<Rightarrow> None
             | c' # r' \<Rightarrow> if c' = CHR ''}'' then Some (JObject [], r') else read_members n [] r)
          else if c = CHR ''['' then
            (case dropWhile json_space r of
               [] \<Rightarrow> None
             | c' # r' \<Rightarrow> if c' = CHR '']'' then Some (JArray [], r') else read_items n [] r)
          else if c = CHR 0x22 then
            (case read_text r of None \<Rightarrow> None | Some (w, r') \<Rightarrow> Some (JString w, r'))
          else if take 4 (c # r) = ''true'' then Some (JBool True, drop 3 r)
          else if take 5 (c # r) = ''false'' then Some (JBool False, drop 4 r)
          else if take 4 (c # r) = ''null'' then Some (JNull, drop 3 r)
          else read_int (c # r))"
| "read_items 0 acc cs = None"
| "read_items (Suc n) acc cs =
     (case read_value n cs of
        None \<Rightarrow> None
      | Some (v, r) \<Rightarrow>
          (case dropWhile json_space r of
             [] \<Rightarrow> None
           | c # r' \<Rightarrow>
               if c = CHR '','' then read_items n (acc @ [v]) r'
               else if c = CHR '']'' then Some (JArray (acc @ [v]), r')
               else None))"
| "read_members 0 acc cs = None"
| "read_members (Suc n) acc cs =
     (case dropWhile json_space cs of
        [] \<Rightarrow> None
      | c # r \<Rightarrow>
          if c \<noteq> CHR 0x22 then None
          else
            (case read_text r of
               None \<Rightarrow> None
             | Some (k, r1) \<Rightarrow>
                 (case dropWhile json_space r1 of
                    [] \<Rightarrow> None
                  | c1 # r2 \<Rightarrow>
                      if c1 \<noteq> CHR '':'' then None
                      else
                        (case read_value n r2 of
                           None \<Rightarrow> None
                         | Some (v, r3) \<Rightarrow>
                             (case dropWhile json_space r3 of
                                [] \<Rightarrow> None
                              | c3 # r4 \<Rightarrow>
                                  if c3 = CHR '','' then read_members n (dict_set k v acc) r4
                                  else if c3 = CHR ''}'' then Some (JObject (dict_set k v acc), r4)
                                  else None)))))"

definition fragment_loads :: json_loads where
  "fragment_loads data =
     (case read_value (Suc (length data)) data of
        None \<Rightarrow> Inl ValueError
      | Some (v, r) \<Rightarrow> if dropWhile json_space r = [] then Inr v else Inl ValueError)"

section \<open>The body of a request, in the words of the specification\<close>

text \<open>
  The specification describes the body of a POST request this way: if some line at index
  \<open>i\<close> is blank after stripping and \<open>i\<close> is not the last index, the body is the line at
  index \<open>i + 1\<close>, for the first such \<open>i\<close>; otherwise the body is empty. \<open>body_spec\<close>
  follows these words; it is compared with \<open>body_loop\<close>, which follows the source.
\<close>

definition body_spec :: "string list \<Rightarrow> string" where
  "body_spec lines =
     (case List.find (\<lambda>i. strip (lines ! i) = [] \<and> i \<noteq> length lines - 1) [0..<length lines] of
        None \<Rightarrow> []
      | Some i \<Rightarrow> lines ! (i + 1))"

section \<open>Example requests\<close>

text \<open>
  Requests as a client sends them, with lines that end in carriage return and line feed,
  and a connection on which such a request has arrived and nothing has been sent.
\<close>

definition CRLF :: string where
  "CRLF = [CHR 0x0D, CHR 0x0A]"

definition incoming :: "string \<Rightarrow> conn" where
  "incoming request = \<lparr>received = Inr request, sent = [], closed = False\<rparr>"

definition request_get_status :: string where
  "request_get_status = ''GET /status HTTP/1.1'' @ CRLF @ ''Host: 192.168.4.1'' @ CRLF @ CRLF"

definition request_post_alarm :: "string \<Rightarrow> string" where
  "request_post_alarm body =
     ''POST /alarm HTTP/1.1'' @ CRLF @ ''Content-Type: application/json'' @ CRLF @ CRLF @ body"

definition request_post_stop :: string where
  "request_post_stop = ''POST /motor/stop HTTP/1.1'' @ CRLF @ CRLF"

definition request_get_unknown :: string where
  "request_get_unknown = ''GET /unknown/path HTTP/1.1'' @ CRLF @ CRLF"

definition request_two_tokens :: string where
  "request_two_tokens = ''GET /status'' @ CRLF @ CRLF"

definition two_line_body :: string where
  \<open>two_line_body = ''{"action":"toggle",'' @ [CHR 0x0A] @ ''"enabled":true}''\<close>

section \<open>Lemmas about the operations\<close>

lemma run_calls_snoc: "run_calls (cs @ [c]) s = apply_call (run_calls cs s) c"
  by (simp add: run_calls_def)

lemma start_motor_eq:
  "start_motor s = s\<lparr>motor_running := True, pin1 := True, pin2 := False, led := True,
     pin_writes := pin_writes s @ [(MOTOR_PIN1, True), (MOTOR_PIN2, False), (STATUS_LED, True)]\<rparr>"
  by (simp add: start_motor_def pin_on_def pin_off_def)

lemma stop_motor_eq:
  "stop_motor s = s\<lparr>motor_running := False, pin1 := False, pin2 := False, led := False,
     pin_writes := pin_writes s @ [(MOTOR_PIN1, False), (MOTOR_PIN2, False), (STATUS_LED, False)]\<rparr>"
  by (simp add: stop_motor_def pin_on_def pin_off_def)

lemma split_sep_nonempty: "split_sep sep s \<noteq> []"
  by (induction s) (auto split: list.splits)

lemma lower_True: "lower (str_bool True) = ''true''"
  by code_simp

lemma lower_False: "lower (str_bool False) = ''false''"
  by code_simp

lemma str_int_128: "str_int 128 = ''128''"
  by (simp add: str_int_def str_nat.simps digit_char_def)

lemma handle_request_routed:
  assumes "received c = Inr request"
    and "split_sep (CHR '' '') (split_sep (CHR 0x0A) request ! 0) = [method, path, version]"
  shows "handle_request loads c s =
     (let body = (if method = ''POST'' then body_loop (split_sep (CHR 0x0A) request) 0 else []);
          (response, content_type, s') = route loads method path body s
      in (close (send c (http_response content_type response)), s'))"
  using assms split_sep_nonempty [of "CHR 0x0A" request]
  by (simp add: handle_request_def handle_request_try_def Let_def split: prod.splits)

lemma frame_status_stopped:
  \<open>http_response ''application/json'' ''{"status": "online", "motor_running": false, "motor_speed": 128}'' =
   ''HTTP/1.1 200 OK\<newline>Content-Type: application/json\<newline>Content-Length: 64\<newline>Connection: close\<newline>\<newline>{"status": "online", "motor_running": false, "motor_speed": 128}''\<close>
  by (simp add: http_response_def str_int_def str_nat.simps digit_char_def)

lemma body_loop_find:
  "body_loop lines i =
     (case List.find (\<lambda>j. strip (lines ! j) = [] \<and> j \<noteq> length lines - 1) [i..<length lines] of
        None \<Rightarrow> []
      | Some j \<Rightarrow> lines ! (j + 1))"
proof (induction lines i rule: body_loop.induct)
  case (1 lines i)
  show ?case
  proof (cases "i < length lines")
    case False
    then show ?thesis by (simp add: body_loop.simps [of lines i])
  next
    case True
    then have upt: "[i..<length lines] = i # [Suc i..<length lines]"
      by (simp add: upt_rec)
    have last_iff: "int i < int (length lines) - 1 \<longleftrightarrow> i \<noteq> length lines - 1"
      using True by auto
    show ?thesis
    proof (cases "strip (lines ! i) = [] \<and> int i < int (length lines) - 1")
      case hit: True
      have "body_loop lines i = lines ! (i + 1)"
        by (subst body_loop.simps) (use True hit in simp)
      then show ?thesis
        using hit last_iff by (simp add: upt)
    next
      case miss: False
      have "body_loop lines i = body_loop lines (i + 1)"
        by (subst body_loop.simps) (use True miss in auto)
      also have "\<dots> = (case List.find (\<lambda>j. strip (lines ! j) = [] \<and> j \<noteq> length lines - 1)
                          [i + 1..<length lines] of None \<Rightarrow> [] | Some j \<Rightarrow> lines ! (j + 1))"
        using "1.IH" True miss by simp
      finally show ?thesis
        using miss last_iff by (auto simp add: upt)
    qed
  qed
qed

lemma body_loop_spec: "body_loop lines 0 = body_spec lines"
  by (simp add: body_loop_find [of lines 0] body_spec_def)

lemma body_loop_skip:
  assumes "\<forall>l \<in> set pre. strip l \<noteq> []" and "i \<le> length pre"
  shows "body_loop (pre @ rest) i = body_loop (pre @ rest) (length pre)"
  using assms(2)
proof (induction "length pre - i" arbitrary: i)
  case 0
  then show ?case by simp
next
  case (Suc n)
  then have i: "i < length pre" by simp
  then have "strip ((pre @ rest) ! i) \<noteq> []"
    using assms(1) by (simp add: nth_append)
  then have "body_loop (pre @ rest) i = body_loop (pre @ rest) (i + 1)"
    by (subst body_loop.simps) (use i in simp)
  also have "\<dots> = body_loop (pre @ rest) (length pre)"
    using Suc.hyps(1) [of "i + 1"] Suc.hyps(2) i by simp
  finally show ?case .
qed

lemma body_loop_first_blank:
  assumes "\<forall>l \<in> set pre. strip l \<noteq> []" and "strip blank = []"
  shows "body_loop (pre @ blank # b # later) 0 = b"
proof -
  have "body_loop (pre @ blank # b # later) 0 = body_loop (pre @ blank # b # later) (length pre)"
    using body_loop_skip [OF assms(1), of 0] by simp
  also have "\<dots> = b"
    by (subst body_loop.simps) (use assms(2) in \<open>simp add: nth_append\<close>)
  finally show ?thesis .
qed

lemma close_send: "close (send c msg) = c\<lparr>sent := sent c @ [msg], closed := True\<rparr>"
  by (simp add: close_def send_def)

lemma frame_success:
  \<open>http_response ''application/json'' ''{"status": "success"}'' =
   ''HTTP/1.1 200 OK\<newline>Content-Type: application/json\<newline>Content-Length: 21\<newline>Connection: close\<newline>\<newline>{"status": "success"}''\<close>
  by (simp add: http_response_def str_int_def str_nat.simps digit_char_def)

lemma frame_invalid:
  \<open>http_response ''application/json'' ''{"error": "Invalid data"}'' =
   ''HTTP/1.1 200 OK\<newline>Content-Type: application/json\<newline>Content-Length: 25\<newline>Connection: close\<newline>\<newline>{"error": "Invalid data"}''\<close>
  by (simp add: http_response_def str_int_def str_nat.simps digit_char_def)

lemma frame_stopped:
  \<open>http_response ''application/json'' ''{"status": "Motor stopped"}'' =
   ''HTTP/1.1 200 OK\<newline>Content-Type: application/json\<newline>Content-Length: 27\<newline>Connection: close\<newline>\<newline>{"status": "Motor stopped"}''\<close>
  by (simp add: http_response_def str_int_def str_nat.simps digit_char_def)

lemma frame_not_found:
  \<open>http_response ''application/json'' ''{"error": "Not found"}'' =
   ''HTTP/1.1 200 OK\<newline>Content-Type: application/json\<newline>Content-Length: 22\<newline>Connection: close\<newline>\<newline>{"error": "Not found"}''\<close>
  by (simp add: http_response_def str_int_def str_nat.simps digit_char_def)

lemma process_alarm_command_raises:
  assumes "loads data = Inl e"
  shows \<open>process_alarm_command loads data s = (''{"error": "Invalid data"}'', s)\<close>
  using assms by (simp add: process_alarm_command_def process_alarm_command_try_def)

lemma process_alarm_command_dict:
  assumes "loads data = Inr (JObject d)"
  shows \<open>process_alarm_command loads data s =
    (''{"status": "success"}'',
     (if dict_get d ''action'' (JString []) \<in> {JString ''add'', JString ''update'', JString ''toggle''}
      then (if truthy (dict_get d ''enabled'' (JBool False)) then start_motor s else stop_motor s)
      else if dict_get d ''action'' (JString []) = JString ''delete'' then stop_motor s
      else s))\<close>
  using assms by (simp add: process_alarm_command_def process_alarm_command_try_def Let_def)

lemma handle_request_alarm:
  assumes "received c = Inr request"
    and "split_sep (CHR '' '') (split_sep (CHR 0x0A) request ! 0) = [''POST'', ''/alarm'', version]"
  shows "handle_request loads c s =
     (c\<lparr>sent := sent c @ [http_response ''application/json''
            (fst (process_alarm_command loads (body_loop (split_sep (CHR 0x0A) request) 0) s))],
         closed := True\<rparr>,
      snd (process_alarm_command loads (body_loop (split_sep (CHR 0x0A) request) 0) s))"
  by (simp add: handle_request_routed [OF assms] route_def close_send split: prod.splits)

lemma route_not_found:
  assumes "path \<noteq> ''/status''"
    and "path \<noteq> ''/''"
    and "\<not> (method = ''POST'' \<and> path \<in> {''/alarm'', ''/motor/start'', ''/motor/stop''})"
  shows \<open>route loads method path body s = (''{"error": "Not found"}'', ''application/json'', s)\<close>
proof (cases "method = ''POST''")
  case True
  with assms(3) have "path \<noteq> ''/alarm''" "path \<noteq> ''/motor/start''" "path \<noteq> ''/motor/stop''"
    by blast+
  with assms(1,2) show ?thesis
    unfolding route_def by (simp only: if_False simp_thms)
next
  case False
  with assms(1,2) show ?thesis
    unfolding route_def by (simp only: if_False simp_thms)
qed

lemma route_motor_stop:
  \<open>route loads ''POST'' ''/motor/stop'' body s =
     (''{"status": "Motor stopped"}'', ''application/json'', stop_motor s)\<close>
  by (simp add: route_def)

lemma route_alarm:
  "route loads ''POST'' ''/alarm'' body s =
     (fst (process_alarm_command loads body s), ''application/json'',
      snd (process_alarm_command loads body s))"
  by (simp add: route_def split: prod.splits)

lemma route_status:
  "route loads method ''/status'' body s = (status_json s, ''application/json'', s)"
  by (simp add: route_def)

lemma status_json_running:
  assumes "motor_running s"
  shows \<open>status_json s =
    ''{"status": "online", "motor_running": true, "motor_speed": '' @ str_int (motor_speed s) @ ''}''\<close>
  using assms lower_True by (simp add: status_json_def)

lemma stop_motor_stopped:
  assumes "\<not> motor_running t" and "\<not> pin1 t" and "\<not> pin2 t" and "\<not> led t"
  shows "stop_motor t =
    t\<lparr>pin_writes := pin_writes t @ [(MOTOR_PIN1, False), (MOTOR_PIN2, False), (STATUS_LED, False)]\<rparr>"
  using assms by (cases t) (simp add: stop_motor_eq)

lemma start_motor_levels:
  "motor_running (start_motor s) \<and> pin1 (start_motor s) \<and> \<not> pin2 (start_motor s) \<and> led (start_motor s)"
  by (simp add: start_motor_eq)

lemma stop_motor_levels:
  "\<not> motor_running (stop_motor s) \<and> \<not> pin1 (stop_motor s) \<and> \<not> pin2 (stop_motor s) \<and> \<not> led (stop_motor s)"
  by (simp add: stop_motor_eq)

lemma handle_request_status:
  assumes "received c = Inr request"
    and "split_sep (CHR '' '') (split_sep (CHR 0x0A) request ! 0) = [method, ''/status'', version]"
  shows "handle_request loads c s =
    (c\<lparr>sent := sent c @ [http_response ''application/json'' (status_json s)], closed := True\<rparr>, s)"
  unfolding handle_request_routed [OF assms] route_status
  by (simp only: Let_def prod.case close_send)

lemma frame_status_running:
  \<open>http_response ''application/json''
      (''{"status": "online", "motor_running": true, "motor_speed": '' @ str_int 128 @ ''}'') =
   ''HTTP/1.1 200 OK\<newline>Content-Type: application/json\<newline>Content-Length: 63\<newline>Connection: close\<newline>\<newline>{"status": "online", "motor_running": true, "motor_speed": 128}''\<close>
  by (simp add: http_response_def str_int_def str_nat.simps digit_char_def)

lemma unpack_not_three:
  assumes "length xs \<noteq> 3"
  shows "(case xs of [a, b, c] \<Rightarrow> f a b c | _ \<Rightarrow> g) = g"
  using assms by (auto split: list.splits)

lemma handle_request_try_malformed:
  assumes "received c = Inr request"
    and "length (split_sep (CHR '' '') (split_sep (CHR 0x0A) request ! 0)) \<noteq> 3"
  shows "handle_request_try loads c s = Inl (ValueError, c, s)"
  using assms(1) split_sep_nonempty [of "CHR 0x0A" request]
  by (simp add: handle_request_try_def Let_def unpack_not_three [OF assms(2)])

lemma process_alarm_command_speed:
  "motor_speed (snd (process_alarm_command loads data s)) = motor_speed s"
  by (simp add: process_alarm_command_def process_alarm_command_try_def Let_def
      start_motor_eq stop_motor_eq split: sum.splits json.splits)

lemma route_speed:
  "motor_speed (snd (snd (route loads method path body s))) = motor_speed s"
  by (simp add: route_def case_prod_beta process_alarm_command_speed start_motor_eq stop_motor_eq)

lemma handle_request_speed:
  "motor_speed (snd (handle_request loads c s)) = motor_speed s"
proof (cases "received c")
  case (Inl e)
  then show ?thesis
    by (simp add: handle_request_def handle_request_try_def)
next
  case (Inr request)
  show ?thesis
  proof (cases "length (split_sep (CHR '' '') (split_sep (CHR 0x0A) request ! 0)) = 3")
    case False
    then show ?thesis
      by (simp add: handle_request_def handle_request_try_malformed [OF Inr])
  next
    case True
    then obtain m p v
      where line: "split_sep (CHR '' '') (split_sep (CHR 0x0A) request ! 0) = [m, p, v]"
      by (auto simp add: length_Suc_conv numeral_3_eq_3)
    show ?thesis
      using route_speed [of loads m p _ s]
      by (simp add: handle_request_routed [OF Inr line] Let_def split: prod.splits)
        (metis snd_conv)
  qed
qed

lemma main_loop_speed:
  "motor_speed (machine (main_loop loads evs sv)) = motor_speed (machine sv)"
proof (induction evs arbitrary: sv)
  case Nil
  then show ?case by simp
next
  case (Cons ev evs)
  show ?case
  proof (cases ev)
    case (Accept c)
    then show ?thesis
      using Cons.IH handle_request_speed [of loads c "machine sv"]
      by (simp split: prod.splits) (metis snd_conv)
  next
    case (Accept_error e)
    then show ?thesis using Cons.IH by simp
  next
    case KeyboardInterrupt
    then show ?thesis by simp
  qed
qed

lemma body_spec_first_blank:
  assumes "\<forall>l \<in> set pre. strip l \<noteq> []" and "strip blank = []"
  shows "body_spec (pre @ blank # b # later) = b"
  using body_loop_first_blank [OF assms] by (simp only: body_loop_spec)

section \<open>The example requests, evaluated\<close>

lemma received_incoming: "received (incoming request) = Inr request"
  by (simp add: incoming_def)

lemma line_get_status:
  "split_sep (CHR '' '') (split_sep (CHR 0x0A) request_get_status ! 0) =
     [''GET'', ''/status'', ''HTTP/1.1'' @ [CHR 0x0D]]"
  by (simp add: request_get_status_def CRLF_def)

lemma line_post_alarm:
  "split_sep (CHR '' '') (split_sep (CHR 0x0A) (request_post_alarm body) ! 0) =
     [''POST'', ''/alarm'', ''HTTP/1.1'' @ [CHR 0x0D]]"
  by (simp add: request_post_alarm_def CRLF_def split: list.splits)

lemma lines_post_alarm:
  "split_sep (CHR 0x0A) (request_post_alarm body) =
     [''POST /alarm HTTP/1.1'' @ [CHR 0x0D], ''Content-Type: application/json'' @ [CHR 0x0D]]
     @ [CHR 0x0D] # hd (split_sep (CHR 0x0A) body) # tl (split_sep (CHR 0x0A) body)"
  using split_sep_nonempty [of "CHR 0x0A" body]
  by (simp add: request_post_alarm_def CRLF_def split: list.splits)

lemma body_post_alarm:
  "body_loop (split_sep (CHR 0x0A) (request_post_alarm body)) 0 = hd (split_sep (CHR 0x0A) body)"
  unfolding lines_post_alarm
  by (rule body_loop_first_blank) (simp_all add: strip_def isspace_def)

lemma line_get_unknown:
  "split_sep (CHR '' '') (split_sep (CHR 0x0A) request_get_unknown ! 0) =
     [''GET'', ''/unknown/path'', ''HTTP/1.1'' @ [CHR 0x0D]]"
  by (simp add: request_get_unknown_def CRLF_def)

lemma line_post_stop:
  "split_sep (CHR '' '') (split_sep (CHR 0x0A) request_post_stop ! 0) =
     [''POST'', ''/motor/stop'', ''HTTP/1.1'' @ [CHR 0x0D]]"
  by (simp add: request_post_stop_def CRLF_def)

lemma line_two_tokens:
  "split_sep (CHR '' '') (split_sep (CHR 0x0A) request_two_tokens ! 0) = [''GET'', ''/status'' @ [CHR 0x0D]]"
  by (simp add: request_two_tokens_def CRLF_def)

lemma lines_two_line_body:
  \<open>split_sep (CHR 0x0A) (request_post_alarm two_line_body) =
     [''POST /alarm HTTP/1.1'' @ [CHR 0x0D], ''Content-Type: application/json'' @ [CHR 0x0D]]
     @ [CHR 0x0D] # ''{"action":"toggle",'' # [''"enabled":true}'']\<close>
  unfolding lines_post_alarm by (simp add: two_line_body_def)

lemma loads_not_json: "fragment_loads ''not json'' = Inl ValueError"
  by code_simp

lemma body_not_json:
  "body_loop (split_sep (CHR 0x0A) (request_post_alarm ''not json'')) 0 = ''not json''"
  by (simp add: body_post_alarm)

lemma loads_toggle:
  \<open>fragment_loads ''{"action":"toggle","enabled":true}'' =
     Inr (JObject [(''action'', JString ''toggle''), (''enabled'', JBool True)])\<close>
  by code_simp

lemma body_toggle:
  \<open>body_loop (split_sep (CHR 0x0A) (request_post_alarm ''{"action":"toggle","enabled":true}'')) 0 =
     ''{"action":"toggle","enabled":true}''\<close>
  by (simp add: body_post_alarm)

lemma loads_update:
  \<open>fragment_loads ''{"action":"update"}'' = Inr (JObject [(''action'', JString ''update'')])\<close>
  by code_simp

lemma body_update:
  \<open>body_loop (split_sep (CHR 0x0A) (request_post_alarm ''{"action":"update"}'')) 0 =
     ''{"action":"update"}''\<close>
  by (simp add: body_post_alarm)

lemma loads_first_line: \<open>fragment_loads ''{"action":"toggle",'' = Inl ValueError\<close>
  by code_simp

section \<open>The claims\<close>

text \<open>
  Claim C1. After every non-empty sequence of calls of \<open>start_motor\<close> and \<open>stop_motor\<close>,
  from any board, the flag \<open>motor_running\<close> is true exactly when the last call was
  \<open>start_motor\<close>; the control pins are high/low when the flag is true and both low when
  it is false; and the status LED is on exactly when the flag is true.
\<close>

theorem C1_start_stop_invariant:
  assumes "cs \<noteq> []"
  shows "motor_running (run_calls cs s) = (last cs = Start)
       \<and> (if motor_running (run_calls cs s)
            then pin1 (run_calls cs s) \<and> \<not> pin2 (run_calls cs s)
            else \<not> pin1 (run_calls cs s) \<and> \<not> pin2 (run_calls cs s))
       \<and> led (run_calls cs s) = motor_running (run_calls cs s)"
proof -
  from assms obtain bs c where cs: "cs = bs @ [c]"
    by (metis rev_exhaust)
  show ?thesis
    by (cases c) (simp_all add: cs run_calls_snoc start_motor_eq stop_motor_eq)
qed

text \<open>The invariant of claim C1 after a sequence of five calls.\<close>

theorem C1_start_stop_invariant_witness:
  "[Stop, Start, Start, Stop, Start] \<noteq> []
   \<and> motor_running (run_calls [Stop, Start, Start, Stop, Start] (boot True True False)) = (last [Stop, Start, Start, Stop, Start] = Start)
   \<and> pin1 (run_calls [Stop, Start, Start, Stop, Start] (boot True True False))
   \<and> \<not> pin2 (run_calls [Stop, Start, Start, Stop, Start] (boot True True False))
   \<and> led (run_calls [Stop, Start, Start, Stop, Start] (boot True True False))"
  using C1_start_stop_invariant [of "[Stop, Start, Start, Stop, Start]" "boot True True False"]
  by (simp add: run_calls_def start_motor_eq stop_motor_eq boot_def)

text \<open>
  Claim C2. A POST to \<^verbatim>\<open>/alarm\<close> whose body is the text
  \<^verbatim>\<open>{"action":"toggle","enabled":true}\<close>, which \<^verbatim>\<open>json.loads\<close> reads as the dict with
  these two items, is answered with the body \<^verbatim>\<open>{"status": "success"}\<close> and leaves the
  board as \<open>start_motor\<close> leaves it: flag set, pin 1 high, pin 2 low, LED on. A GET of
  \<^verbatim>\<open>/status\<close> handled next reports \<^verbatim>\<open>"motor_running": true\<close>.
\<close>

theorem C2_alarm_toggle_enabled:
  assumes "received c = Inr request"
    and "split_sep (CHR '' '') (split_sep (CHR 0x0A) request ! 0) = [''POST'', ''/alarm'', version]"
    and \<open>body_loop (split_sep (CHR 0x0A) request) 0 = ''{"action":"toggle","enabled":true}''\<close>
    and \<open>loads ''{"action":"toggle","enabled":true}'' =
           Inr (JObject [(''action'', JString ''toggle''), (''enabled'', JBool True)])\<close>
    and "received c' = Inr request'"
    and "split_sep (CHR '' '') (split_sep (CHR 0x0A) request' ! 0) = [''GET'', ''/status'', version']"
  shows \<open>handle_request loads c s =
      (c\<lparr>sent := sent c @
          [''HTTP/1.1 200 OK\<newline>Content-Type: application/json\<newline>Content-Length: 21\<newline>Connection: close\<newline>\<newline>{"status": "success"}''],
         closed := True\<rparr>, start_motor s)
    \<and> motor_running (start_motor s) \<and> pin1 (start_motor s) \<and> \<not> pin2 (start_motor s)
    \<and> led (start_motor s)
    \<and> handle_request loads c' (start_motor s) =
      (c'\<lparr>sent := sent c' @
          [http_response ''application/json''
             (''{"status": "online", "motor_running": true, "motor_speed": ''
                @ str_int (motor_speed s) @ ''}'')],
         closed := True\<rparr>, start_motor s)\<close>
proof -
  have cmd: \<open>process_alarm_command loads (body_loop (split_sep (CHR 0x0A) request) 0) s =
      (''{"status": "success"}'', start_motor s)\<close>
    unfolding assms(3)
    by (subst process_alarm_command_dict, rule assms(4)) (simp add: dict_get_def)
  have first: \<open>handle_request loads c s =
      (c\<lparr>sent := sent c @
          [''HTTP/1.1 200 OK\<newline>Content-Type: application/json\<newline>Content-Length: 21\<newline>Connection: close\<newline>\<newline>{"status": "success"}''],
         closed := True\<rparr>, start_motor s)\<close>
    unfolding handle_request_alarm [OF assms(1,2)] cmd
    by (simp only: fst_conv snd_conv frame_success)
  have speed: "motor_speed (start_motor s) = motor_speed s"
    by (simp add: start_motor_eq)
  have second: \<open>handle_request loads c' (start_motor s) =
      (c'\<lparr>sent := sent c' @
          [http_response ''application/json''
             (''{"status": "online", "motor_running": true, "motor_speed": ''
                @ str_int (motor_speed s) @ ''}'')],
         closed := True\<rparr>, start_motor s)\<close>
    unfolding handle_request_status [OF assms(5,6)]
    using status_json_running [of "start_motor s"] start_motor_levels [of s]
    by (simp only: speed simp_thms)
  show ?thesis
    using first second start_motor_levels [of s] by (simp only: simp_thms)
qed

text \<open>Claim C2 on a freshly booted board, with the reader for the fragment as \<open>loads\<close>.\<close>

theorem C2_alarm_toggle_enabled_witness:
  \<open>received (incoming (request_post_alarm ''{"action":"toggle","enabled":true}'')) =
       Inr (request_post_alarm ''{"action":"toggle","enabled":true}'')
   \<and> split_sep (CHR '' '')
         (split_sep (CHR 0x0A) (request_post_alarm ''{"action":"toggle","enabled":true}'') ! 0) =
       [''POST'', ''/alarm'', ''HTTP/1.1'' @ [CHR 0x0D]]
   \<and> body_loop (split_sep (CHR 0x0A) (request_post_alarm ''{"action":"toggle","enabled":true}'')) 0 =
       ''{"action":"toggle","enabled":true}''
   \<and> fragment_loads ''{"action":"toggle","enabled":true}'' =
       Inr (JObject [(''action'', JString ''toggle''), (''enabled'', JBool True)])
   \<and> received (incoming request_get_status) = Inr request_get_status
   \<and> split_sep (CHR '' '') (split_sep (CHR 0x0A) request_get_status ! 0) =
       [''GET'', ''/status'', ''HTTP/1.1'' @ [CHR 0x0D]]
   \<and> handle_request fragment_loads
         (incoming (request_post_alarm ''{"action":"toggle","enabled":true}''))
         (boot False False False) =
       (\<lparr>received = Inr (request_post_alarm ''{"action":"toggle","enabled":true}''),
         sent = [''HTTP/1.1 200 OK\<newline>Content-Type: application/json\<newline>Content-Length: 21\<newline>Connection: close\<newline>\<newline>{"status": "success"}''],
         closed = True\<rparr>,
        \<lparr>motor_running = True, motor_speed = 128, pin1 = True, pin2 = False, led = True,
         pin_writes = [(MOTOR_PIN1, True), (MOTOR_PIN2, False), (STATUS_LED, True)]\<rparr>)
   \<and> handle_request fragment_loads (incoming request_get_status)
         (start_motor (boot False False False)) =
       (\<lparr>received = Inr request_get_status,
         sent = [''HTTP/1.1 200 OK\<newline>Content-Type: application/json\<newline>Content-Length: 63\<newline>Connection: close\<newline>\<newline>{"status": "online", "motor_running": true, "motor_speed": 128}''],
         closed = True\<rparr>,
        start_motor (boot False False False))\<close>
proof -
  have speed: "motor_speed (boot False False False) = 128"
    by (simp add: boot_def)
  have board: "start_motor (boot False False False) =
        \<lparr>motor_running = True, motor_speed = 128, pin1 = True, pin2 = False, led = True,
         pin_writes = [(MOTOR_PIN1, True), (MOTOR_PIN2, False), (STATUS_LED, True)]\<rparr>"
    by (simp add: boot_def start_motor_eq)
  show ?thesis
    using C2_alarm_toggle_enabled [where loads = fragment_loads
          and c = \<open>incoming (request_post_alarm ''{"action":"toggle","enabled":true}'')\<close>
          and c' = "incoming request_get_status"
          and s = "boot False False False",
        OF received_incoming line_post_alarm body_toggle loads_toggle received_incoming line_get_status]
      received_incoming line_post_alarm body_toggle loads_toggle line_get_status
    by (simp only: speed frame_status_running) (simp add: incoming_def board)
qed

text \<open>
  Claim C3. For every board, a POST to \<^verbatim>\<open>/alarm\<close> whose body \<^verbatim>\<open>json.loads\<close> rejects
  (it raises) is answered with the body \<^verbatim>\<open>{"error": "Invalid data"}\<close>, and the board,
  the list of pin writes included, is exactly what it was.
\<close>

theorem C3_alarm_invalid_json:
  assumes "received c = Inr request"
    and "split_sep (CHR '' '') (split_sep (CHR 0x0A) request ! 0) = [''POST'', ''/alarm'', version]"
    and "loads (body_loop (split_sep (CHR 0x0A) request) 0) = Inl e"
  shows \<open>process_alarm_command loads (body_loop (split_sep (CHR 0x0A) request) 0) s =
      (''{"error": "Invalid data"}'', s)
    \<and> handle_request loads c s =
      (c\<lparr>sent := sent c @
          [''HTTP/1.1 200 OK\<newline>Content-Type: application/json\<newline>Content-Length: 25\<newline>Connection: close\<newline>\<newline>{"error": "Invalid data"}''],
         closed := True\<rparr>, s)\<close>
proof -
  have cmd: \<open>process_alarm_command loads (body_loop (split_sep (CHR 0x0A) request) 0) s =
      (''{"error": "Invalid data"}'', s)\<close>
    using assms(3) by (rule process_alarm_command_raises)
  show ?thesis
    unfolding handle_request_alarm [OF assms(1,2)] cmd
    by (simp only: fst_conv snd_conv frame_invalid simp_thms)
qed

text \<open>Claim C3 at the body \<^verbatim>\<open>not json\<close>, with the motor running.\<close>

theorem C3_alarm_invalid_json_witness:
  \<open>received (incoming (request_post_alarm ''not json'')) = Inr (request_post_alarm ''not json'')
   \<and> split_sep (CHR '' '') (split_sep (CHR 0x0A) (request_post_alarm ''not json'') ! 0) =
       [''POST'', ''/alarm'', ''HTTP/1.1'' @ [CHR 0x0D]]
   \<and> fragment_loads (body_loop (split_sep (CHR 0x0A) (request_post_alarm ''not json'')) 0) = Inl ValueError
   \<and> handle_request fragment_loads (incoming (request_post_alarm ''not json''))
        (start_motor (boot False False False)) =
       (\<lparr>received = Inr (request_post_alarm ''not json''),
         sent = [''HTTP/1.1 200 OK\<newline>Content-Type: application/json\<newline>Content-Length: 25\<newline>Connection: close\<newline>\<newline>{"error": "Invalid data"}''],
         closed = True\<rparr>,
        start_motor (boot False False False))\<close>
proof -
  have h3: "fragment_loads (body_loop (split_sep (CHR 0x0A) (request_post_alarm ''not json'')) 0) = Inl ValueError"
    by (simp only: body_not_json loads_not_json)
  show ?thesis
    using C3_alarm_invalid_json [where loads = fragment_loads
          and c = "incoming (request_post_alarm ''not json'')"
          and s = "start_motor (boot False False False)",
        OF received_incoming line_post_alarm h3]
      received_incoming [of "request_post_alarm ''not json''"] line_post_alarm [of "''not json''"] h3
    by (simp add: incoming_def)
qed

text \<open>
  Claim C4. A request for \<^verbatim>\<open>/status\<close> (with any method, so also GET), handled when
  \<open>motor_running\<close> is false and \<open>motor_speed\<close> is 128, sends exactly one message: the
  \<^verbatim>\<open>200 OK\<close> framing with content type \<^verbatim>\<open>application/json\<close> and the body
  \<^verbatim>\<open>{"status": "online", "motor_running": false, "motor_speed": 128}\<close>. The connection is
  closed and the board is unchanged.
\<close>

theorem C4_status_when_stopped:
  assumes "received c = Inr request"
    and "split_sep (CHR '' '') (split_sep (CHR 0x0A) request ! 0) = [method, ''/status'', version]"
    and "\<not> motor_running s"
    and "motor_speed s = 128"
  shows \<open>handle_request loads c s =
    (c\<lparr>sent := sent c @
        [''HTTP/1.1 200 OK\<newline>Content-Type: application/json\<newline>Content-Length: 64\<newline>Connection: close\<newline>\<newline>{"status": "online", "motor_running": false, "motor_speed": 128}''],
       closed := True\<rparr>, s)\<close>
proof -
  have \<open>status_json s = ''{"status": "online", "motor_running": false, "motor_speed": 128}''\<close>
    using assms(3,4) lower_False by (simp add: status_json_def str_int_128)
  then show ?thesis
    using frame_status_stopped
    by (simp add: handle_request_routed [OF assms(1,2)] route_def close_send)
qed

text \<open>Claim C4 at the request \<open>request_get_status\<close> on a freshly booted board.\<close>

theorem C4_status_when_stopped_witness:
  \<open>received (incoming request_get_status) = Inr request_get_status
   \<and> split_sep (CHR '' '') (split_sep (CHR 0x0A) request_get_status ! 0) =
       [''GET'', ''/status'', ''HTTP/1.1'' @ [CHR 0x0D]]
   \<and> \<not> motor_running (boot True False True)
   \<and> motor_speed (boot True False True) = 128
   \<and> handle_request fragment_loads (incoming request_get_status) (boot True False True) =
       (\<lparr>received = Inr request_get_status,
         sent = [''HTTP/1.1 200 OK\<newline>Content-Type: application/json\<newline>Content-Length: 64\<newline>Connection: close\<newline>\<newline>{"status": "online", "motor_running": false, "motor_speed": 128}''],
         closed = True\<rparr>, boot True False True)\<close>
proof -
  have h3: "\<not> motor_running (boot True False True)" and h4: "motor_speed (boot True False True) = 128"
    by (simp_all add: boot_def)
  show ?thesis
    using C4_status_when_stopped [OF received_incoming line_get_status h3 h4, of fragment_loads]
      received_incoming [of request_get_status] line_get_status h3 h4
    by (simp add: incoming_def)
qed

text \<open>
  Claim C5. For every board, a POST to \<^verbatim>\<open>/motor/stop\<close> is answered with the body
  \<^verbatim>\<open>{"status": "Motor stopped"}\<close> and applies \<open>stop_motor\<close>. \<open>stop_motor\<close> clears the
  flag and writes low to pin 1, pin 2 and the LED, in this order; on a board that is
  already stopped it changes nothing but the list of pin writes, to which it appends the
  same three writes again.
\<close>

theorem C5_stop_route_idempotent:
  assumes "received c = Inr request"
    and "split_sep (CHR '' '') (split_sep (CHR 0x0A) request ! 0) = [''POST'', ''/motor/stop'', version]"
    and "\<not> motor_running t" and "\<not> pin1 t" and "\<not> pin2 t" and "\<not> led t"
  shows \<open>handle_request loads c s =
      (c\<lparr>sent := sent c @
          [''HTTP/1.1 200 OK\<newline>Content-Type: application/json\<newline>Content-Length: 27\<newline>Connection: close\<newline>\<newline>{"status": "Motor stopped"}''],
         closed := True\<rparr>, stop_motor s)
    \<and> stop_motor s =
        s\<lparr>motor_running := False, pin1 := False, pin2 := False, led := False,
          pin_writes := pin_writes s @ [(MOTOR_PIN1, False), (MOTOR_PIN2, False), (STATUS_LED, False)]\<rparr>
    \<and> stop_motor t =
        t\<lparr>pin_writes := pin_writes t @ [(MOTOR_PIN1, False), (MOTOR_PIN2, False), (STATUS_LED, False)]\<rparr>
    \<and> stop_motor (stop_motor s) =
        (stop_motor s)\<lparr>pin_writes := pin_writes (stop_motor s) @
           [(MOTOR_PIN1, False), (MOTOR_PIN2, False), (STATUS_LED, False)]\<rparr>\<close>
proof -
  have sent: \<open>handle_request loads c s =
      (c\<lparr>sent := sent c @
          [''HTTP/1.1 200 OK\<newline>Content-Type: application/json\<newline>Content-Length: 27\<newline>Connection: close\<newline>\<newline>{"status": "Motor stopped"}''],
         closed := True\<rparr>, stop_motor s)\<close>
    unfolding handle_request_routed [OF assms(1,2)] route_motor_stop
    by (simp only: Let_def prod.case close_send frame_stopped)
  have again: "stop_motor (stop_motor s) =
        (stop_motor s)\<lparr>pin_writes := pin_writes (stop_motor s) @
           [(MOTOR_PIN1, False), (MOTOR_PIN2, False), (STATUS_LED, False)]\<rparr>"
    by (rule stop_motor_stopped) (simp_all add: stop_motor_eq)
  show ?thesis
    using sent stop_motor_eq [of s] stop_motor_stopped [OF assms(3-6)] again by (simp only: simp_thms)
qed

text \<open>Claim C5 at the request \<open>request_post_stop\<close>, with the motor running.\<close>

theorem C5_stop_route_idempotent_witness:
  \<open>received (incoming request_post_stop) = Inr request_post_stop
   \<and> split_sep (CHR '' '') (split_sep (CHR 0x0A) request_post_stop ! 0) =
       [''POST'', ''/motor/stop'', ''HTTP/1.1'' @ [CHR 0x0D]]
   \<and> \<not> motor_running (boot False False False) \<and> \<not> pin1 (boot False False False)
   \<and> \<not> pin2 (boot False False False) \<and> \<not> led (boot False False False)
   \<and> handle_request fragment_loads (incoming request_post_stop) (start_motor (boot False False False)) =
       (\<lparr>received = Inr request_post_stop,
         sent = [''HTTP/1.1 200 OK\<newline>Content-Type: application/json\<newline>Content-Length: 27\<newline>Connection: close\<newline>\<newline>{"status": "Motor stopped"}''],
         closed = True\<rparr>,
        \<lparr>motor_running = False, motor_speed = 128, pin1 = False, pin2 = False, led = False,
         pin_writes = [(MOTOR_PIN1, True), (MOTOR_PIN2, False), (STATUS_LED, True),
                       (MOTOR_PIN1, False), (MOTOR_PIN2, False), (STATUS_LED, False)]\<rparr>)
   \<and> stop_motor (boot False False False) =
       \<lparr>motor_running = False, motor_speed = 128, pin1 = False, pin2 = False, led = False,
        pin_writes = [(MOTOR_PIN1, False), (MOTOR_PIN2, False), (STATUS_LED, False)]\<rparr>\<close>
proof -
  have h: "\<not> motor_running (boot False False False)" "\<not> pin1 (boot False False False)"
    "\<not> pin2 (boot False False False)" "\<not> led (boot False False False)"
    by (simp_all add: boot_def)
  show ?thesis
    using C5_stop_route_idempotent [OF received_incoming line_post_stop h,
        of fragment_loads "start_motor (boot False False False)"]
      received_incoming [of request_post_stop] line_post_stop h
    by (simp add: incoming_def boot_def start_motor_eq)
qed

text \<open>
  Claim C6. A request whose line has three elements and whose path and method match no
  route (the path is neither \<^verbatim>\<open>/status\<close> nor \<^verbatim>\<open>/\<close>, and it is not a POST to
  \<^verbatim>\<open>/alarm\<close>, \<^verbatim>\<open>/motor/start\<close> or \<^verbatim>\<open>/motor/stop\<close>) is answered with the body
  \<^verbatim>\<open>{"error": "Not found"}\<close> under the status line \<^verbatim>\<open>HTTP/1.1 200 OK\<close> and the
  content type \<^verbatim>\<open>application/json\<close>; the board is unchanged.
\<close>

theorem C6_not_found_is_200:
  assumes "received c = Inr request"
    and "split_sep (CHR '' '') (split_sep (CHR 0x0A) request ! 0) = [method, path, version]"
    and "path \<noteq> ''/status''"
    and "path \<noteq> ''/''"
    and "\<not> (method = ''POST'' \<and> path \<in> {''/alarm'', ''/motor/start'', ''/motor/stop''})"
  shows \<open>handle_request loads c s =
    (c\<lparr>sent := sent c @
        [''HTTP/1.1 200 OK\<newline>Content-Type: application/json\<newline>Content-Length: 22\<newline>Connection: close\<newline>\<newline>{"error": "Not found"}''],
       closed := True\<rparr>, s)\<close>
  unfolding handle_request_routed [OF assms(1,2)] route_not_found [OF assms(3,4,5)]
  by (simp only: Let_def prod.case close_send frame_not_found)

text \<open>Claim C6 at \<^verbatim>\<open>GET /unknown/path\<close>, with the motor running.\<close>

theorem C6_not_found_is_200_witness:
  \<open>received (incoming request_get_unknown) = Inr request_get_unknown
   \<and> split_sep (CHR '' '') (split_sep (CHR 0x0A) request_get_unknown ! 0) =
       [''GET'', ''/unknown/path'', ''HTTP/1.1'' @ [CHR 0x0D]]
   \<and> ''/unknown/path'' \<noteq> ''/status''
   \<and> ''/unknown/path'' \<noteq> ''/''
   \<and> ''GET'' \<noteq> ''POST''
   \<and> handle_request fragment_loads (incoming request_get_unknown) (start_motor (boot False False False)) =
       (\<lparr>received = Inr request_get_unknown,
         sent = [''HTTP/1.1 200 OK\<newline>Content-Type: application/json\<newline>Content-Length: 22\<newline>Connection: close\<newline>\<newline>{"error": "Not found"}''],
         closed = True\<rparr>, start_motor (boot False False False))\<close>
proof -
  have h3: "''/unknown/path'' \<noteq> ''/status''" and h4: "''/unknown/path'' \<noteq> ''/''"
    and h5: "\<not> (''GET'' = ''POST'' \<and> ''/unknown/path'' \<in> {''/alarm'', ''/motor/start'', ''/motor/stop''})"
    by simp_all
  show ?thesis
    using C6_not_found_is_200 [OF received_incoming line_get_unknown h3 h4 h5, of fragment_loads]
      received_incoming [of request_get_unknown] line_get_unknown
    by (simp add: incoming_def)
qed

text \<open>
  Claim C7. When the first line of the request, split at every space, does not have
  exactly three elements, the unpacking raises \<^verbatim>\<open>ValueError\<close> inside \<open>handle_request\<close>,
  which catches it: nothing is sent, the connection is closed, the board is unchanged, and
  the accept loop goes on with the remaining events as it would have without this
  connection.
\<close>

theorem C7_malformed_request_line_dropped:
  assumes "received c = Inr request"
    and "length (split_sep (CHR '' '') (split_sep (CHR 0x0A) request ! 0)) \<noteq> 3"
  shows "handle_request_try loads c s = Inl (ValueError, c, s)
    \<and> handle_request loads c s = (c\<lparr>closed := True\<rparr>, s)
    \<and> main_loop loads (Accept c # evs) sv =
        main_loop loads evs (sv\<lparr>handled := handled sv @ [c\<lparr>closed := True\<rparr>]\<rparr>)"
proof -
  have raised: "handle_request_try loads c s = Inl (ValueError, c, s)" for s
    using assms by (rule handle_request_try_malformed)
  have dropped: "handle_request loads c s = (c\<lparr>closed := True\<rparr>, s)" for s
    by (simp add: handle_request_def raised close_def)
  have "main_loop loads (Accept c # evs) sv =
        main_loop loads evs (sv\<lparr>handled := handled sv @ [c\<lparr>closed := True\<rparr>]\<rparr>)"
    by (simp add: dropped)
  with raised dropped show ?thesis by simp
qed

text \<open>Claim C7 at a request line of two elements, followed by a request for the status.\<close>

theorem C7_malformed_request_line_dropped_witness:
  \<open>received (incoming request_two_tokens) = Inr request_two_tokens
   \<and> length (split_sep (CHR '' '') (split_sep (CHR 0x0A) request_two_tokens ! 0)) = 2
   \<and> handle_request fragment_loads (incoming request_two_tokens) (start_motor (boot False False False)) =
       (\<lparr>received = Inr request_two_tokens, sent = [], closed = True\<rparr>,
        start_motor (boot False False False))
   \<and> main_loop fragment_loads [Accept (incoming request_two_tokens), Accept (incoming request_get_status)]
         \<lparr>machine = boot False False False, handled = [], serving = True\<rparr> =
       \<lparr>machine = boot False False False,
        handled = [\<lparr>received = Inr request_two_tokens, sent = [], closed = True\<rparr>,
                   \<lparr>received = Inr request_get_status,
                    sent = [''HTTP/1.1 200 OK\<newline>Content-Type: application/json\<newline>Content-Length: 64\<newline>Connection: close\<newline>\<newline>{"status": "online", "motor_running": false, "motor_speed": 128}''],
                    closed = True\<rparr>],
        serving = True\<rparr>\<close>
proof -
  have h2: "length (split_sep (CHR '' '') (split_sep (CHR 0x0A) request_two_tokens ! 0)) \<noteq> 3"
    by (simp add: line_two_tokens)
  have status: \<open>handle_request fragment_loads (incoming request_get_status) (boot False False False) =
      (\<lparr>received = Inr request_get_status,
        sent = [''HTTP/1.1 200 OK\<newline>Content-Type: application/json\<newline>Content-Length: 64\<newline>Connection: close\<newline>\<newline>{"status": "online", "motor_running": false, "motor_speed": 128}''],
        closed = True\<rparr>, boot False False False)\<close>
    unfolding handle_request_status [OF received_incoming line_get_status]
    using lower_False frame_status_stopped
    by (simp add: status_json_def boot_def str_int_128 incoming_def)
  show ?thesis
    using C7_malformed_request_line_dropped [OF received_incoming h2, of fragment_loads]
      received_incoming [of request_two_tokens] line_two_tokens
    by (simp add: status) (simp add: incoming_def)
qed

text \<open>
  Claim C8. Nothing changes \<open>motor_speed\<close>: not \<open>start_motor\<close>, not \<open>stop_motor\<close>, not
  \<open>process_alarm_command\<close> on any data, not \<open>handle_request\<close> on any connection, and not
  the accept loop on any list of events. From the module-level initialisation, the speed is
  128 after every run of \<open>main\<close>.
\<close>

theorem C8_speed_never_changes:
  "motor_speed (start_motor s) = motor_speed s
   \<and> motor_speed (stop_motor s) = motor_speed s
   \<and> motor_speed (snd (process_alarm_command loads data s)) = motor_speed s
   \<and> motor_speed (snd (handle_request loads c s)) = motor_speed s
   \<and> motor_speed (machine (main_loop loads evs sv)) = motor_speed (machine sv)
   \<and> motor_speed (machine (main loads evs (boot l1 l2 l3))) = 128"
proof -
  have "motor_speed (machine (main loads evs (boot l1 l2 l3))) = 128"
    unfolding main_def main_loop_speed by (simp add: stop_motor_eq boot_def)
  then show ?thesis
    using process_alarm_command_speed handle_request_speed main_loop_speed
    by (simp add: start_motor_eq stop_motor_eq)
qed

text \<open>
  Claim C9. For a POST request, the loop of the source computes the body the way the
  specification words it (\<open>body_spec\<close>), and this is the body the route receives. When the
  lines before the first blank line are not blank and a line follows the blank one, the
  body is that single line, whatever lines come after it.
\<close>

theorem C9_body_is_line_after_first_blank:
  assumes "received c = Inr request"
    and "split_sep (CHR '' '') (split_sep (CHR 0x0A) request ! 0) = [''POST'', path, version]"
  shows "body_loop (split_sep (CHR 0x0A) request) 0 = body_spec (split_sep (CHR 0x0A) request)
    \<and> handle_request loads c s =
        (let (response, content_type, s') =
               route loads ''POST'' path (body_spec (split_sep (CHR 0x0A) request)) s
         in (close (send c (http_response content_type response)), s'))
    \<and> (\<forall>pre blank b later.
          split_sep (CHR 0x0A) request = pre @ blank # b # later
          \<and> (\<forall>l \<in> set pre. strip l \<noteq> []) \<and> strip blank = []
          \<longrightarrow> body_spec (split_sep (CHR 0x0A) request) = b)"
proof -
  have routed: "handle_request loads c s =
        (let (response, content_type, s') =
               route loads ''POST'' path (body_spec (split_sep (CHR 0x0A) request)) s
         in (close (send c (http_response content_type response)), s'))"
    unfolding handle_request_routed [OF assms] by (simp only: simp_thms if_True Let_def body_loop_spec)
  show ?thesis
  proof (intro conjI allI impI)
    show "body_loop (split_sep (CHR 0x0A) request) 0 = body_spec (split_sep (CHR 0x0A) request)"
      by (rule body_loop_spec)
    show "handle_request loads c s =
        (let (response, content_type, s') =
               route loads ''POST'' path (body_spec (split_sep (CHR 0x0A) request)) s
         in (close (send c (http_response content_type response)), s'))"
      by (rule routed)
  next
    fix pre blank b later
    assume "split_sep (CHR 0x0A) request = pre @ blank # b # later
          \<and> (\<forall>l \<in> set pre. strip l \<noteq> []) \<and> strip blank = []"
    then have lines: "split_sep (CHR 0x0A) request = pre @ blank # b # later"
      and pre: "\<forall>l \<in> set pre. strip l \<noteq> []" and blank: "strip blank = []"
      by simp_all
    show "body_spec (split_sep (CHR 0x0A) request) = b"
      unfolding lines using pre blank by (rule body_spec_first_blank)
  qed
qed

text \<open>Claim C9 at a body of two lines: only the first reaches \<open>process_alarm_command\<close>.\<close>

theorem C9_body_is_line_after_first_blank_witness:
  \<open>received (incoming (request_post_alarm two_line_body)) = Inr (request_post_alarm two_line_body)
   \<and> split_sep (CHR '' '') (split_sep (CHR 0x0A) (request_post_alarm two_line_body) ! 0) =
       [''POST'', ''/alarm'', ''HTTP/1.1'' @ [CHR 0x0D]]
   \<and> split_sep (CHR 0x0A) (request_post_alarm two_line_body) =
       [''POST /alarm HTTP/1.1'' @ [CHR 0x0D], ''Content-Type: application/json'' @ [CHR 0x0D]]
       @ [CHR 0x0D] # ''{"action":"toggle",'' # [''"enabled":true}'']
   \<and> strip (''POST /alarm HTTP/1.1'' @ [CHR 0x0D]) \<noteq> []
   \<and> strip (''Content-Type: application/json'' @ [CHR 0x0D]) \<noteq> []
   \<and> strip [CHR 0x0D] = []
   \<and> body_loop (split_sep (CHR 0x0A) (request_post_alarm two_line_body)) 0 = ''{"action":"toggle",''
   \<and> body_spec (split_sep (CHR 0x0A) (request_post_alarm two_line_body)) = ''{"action":"toggle",''
   \<and> handle_request fragment_loads (incoming (request_post_alarm two_line_body))
         (boot False False False) =
       (\<lparr>received = Inr (request_post_alarm two_line_body),
         sent = [''HTTP/1.1 200 OK\<newline>Content-Type: application/json\<newline>Content-Length: 25\<newline>Connection: close\<newline>\<newline>{"error": "Invalid data"}''],
         closed = True\<rparr>,
        boot False False False)\<close>
proof -
  note c9 = C9_body_is_line_after_first_blank [where loads = fragment_loads
      and c = "incoming (request_post_alarm two_line_body)" and s = "boot False False False",
      OF received_incoming line_post_alarm]
  have l0: "strip (''POST /alarm HTTP/1.1'' @ [CHR 0x0D]) \<noteq> []"
    and l1: "strip (''Content-Type: application/json'' @ [CHR 0x0D]) \<noteq> []"
    and blank: "strip [CHR 0x0D] = []"
    by (simp_all add: strip_def isspace_def)
  have pre: "\<forall>l \<in> set [''POST /alarm HTTP/1.1'' @ [CHR 0x0D], ''Content-Type: application/json'' @ [CHR 0x0D]].
      strip l \<noteq> []"
    using l0 l1 by simp
  have spec: \<open>body_spec (split_sep (CHR 0x0A) (request_post_alarm two_line_body)) = ''{"action":"toggle",''\<close>
    using c9 lines_two_line_body pre blank by blast
  have loop: \<open>body_loop (split_sep (CHR 0x0A) (request_post_alarm two_line_body)) 0 = ''{"action":"toggle",''\<close>
    using c9 spec by simp
  have cmd: \<open>process_alarm_command fragment_loads ''{"action":"toggle",'' (boot False False False) =
      (''{"error": "Invalid data"}'', boot False False False)\<close>
    using loads_first_line by (rule process_alarm_command_raises)
  have routed: \<open>handle_request fragment_loads (incoming (request_post_alarm two_line_body))
         (boot False False False) =
       (\<lparr>received = Inr (request_post_alarm two_line_body),
         sent = [''HTTP/1.1 200 OK\<newline>Content-Type: application/json\<newline>Content-Length: 25\<newline>Connection: close\<newline>\<newline>{"error": "Invalid data"}''],
         closed = True\<rparr>,
        boot False False False)\<close>
    using c9 unfolding spec route_alarm cmd
    by (simp only: Let_def prod.case fst_conv snd_conv close_send frame_invalid) (simp add: incoming_def)
  show ?thesis
    using received_incoming [of "request_post_alarm two_line_body"] line_post_alarm [of two_line_body]
      lines_two_line_body l0 l1 blank loop spec routed
    by (simp only: simp_thms)
qed

text \<open>
  Claim C10. When the body of a POST to \<^verbatim>\<open>/alarm\<close> is read as a dict whose action is
  \<^verbatim>\<open>add\<close>, \<^verbatim>\<open>update\<close> or \<^verbatim>\<open>toggle\<close> and which has no key \<^verbatim>\<open>enabled\<close>, the
  lookup of \<^verbatim>\<open>enabled\<close> yields \<^verbatim>\<open>False\<close>, the motor is stopped (flag false, both
  control pins low), and the answer is still \<^verbatim>\<open>{"status": "success"}\<close>.
\<close>

theorem C10_alarm_enabled_defaults_false:
  assumes "received c = Inr request"
    and "split_sep (CHR '' '') (split_sep (CHR 0x0A) request ! 0) = [''POST'', ''/alarm'', version]"
    and "loads (body_loop (split_sep (CHR 0x0A) request) 0) = Inr (JObject d)"
    and "map_of d ''action'' = Some (JString action)"
    and "action \<in> {''add'', ''update'', ''toggle''}"
    and "map_of d ''enabled'' = None"
  shows \<open>dict_get d ''enabled'' (JBool False) = JBool False
    \<and> process_alarm_command loads (body_loop (split_sep (CHR 0x0A) request) 0) s =
        (''{"status": "success"}'', stop_motor s)
    \<and> \<not> motor_running (stop_motor s) \<and> \<not> pin1 (stop_motor s) \<and> \<not> pin2 (stop_motor s)
    \<and> handle_request loads c s =
        (c\<lparr>sent := sent c @
            [''HTTP/1.1 200 OK\<newline>Content-Type: application/json\<newline>Content-Length: 21\<newline>Connection: close\<newline>\<newline>{"status": "success"}''],
           closed := True\<rparr>, stop_motor s)\<close>
proof -
  have enabled: "dict_get d ''enabled'' (JBool False) = JBool False"
    using assms(6) by (simp add: dict_get_def)
  have action: "dict_get d ''action'' (JString []) \<in> {JString ''add'', JString ''update'', JString ''toggle''}"
    using assms(4,5) by (auto simp add: dict_get_def)
  have cmd: \<open>process_alarm_command loads (body_loop (split_sep (CHR 0x0A) request) 0) s =
        (''{"status": "success"}'', stop_motor s)\<close>
    by (subst process_alarm_command_dict, rule assms(3)) (simp only: action enabled truthy.simps if_True if_False)
  have sent: \<open>handle_request loads c s =
        (c\<lparr>sent := sent c @
            [''HTTP/1.1 200 OK\<newline>Content-Type: application/json\<newline>Content-Length: 21\<newline>Connection: close\<newline>\<newline>{"status": "success"}''],
           closed := True\<rparr>, stop_motor s)\<close>
    unfolding handle_request_alarm [OF assms(1,2)] cmd
    by (simp only: fst_conv snd_conv frame_success)
  show ?thesis
    using enabled cmd sent stop_motor_levels [of s] by (simp only: simp_thms)
qed

text \<open>Claim C10 at the body \<^verbatim>\<open>{"action":"update"}\<close>, with the motor running.\<close>

theorem C10_alarm_enabled_defaults_false_witness:
  \<open>received (incoming (request_post_alarm ''{"action":"update"}'')) =
       Inr (request_post_alarm ''{"action":"update"}'')
   \<and> split_sep (CHR '' '') (split_sep (CHR 0x0A) (request_post_alarm ''{"action":"update"}'') ! 0) =
       [''POST'', ''/alarm'', ''HTTP/1.1'' @ [CHR 0x0D]]
   \<and> fragment_loads (body_loop (split_sep (CHR 0x0A) (request_post_alarm ''{"action":"update"}'')) 0) =
       Inr (JObject [(''action'', JString ''update'')])
   \<and> map_of [(''action'', JString ''update'')] ''action'' = Some (JString ''update'')
   \<and> ''update'' \<in> {''add'', ''update'', ''toggle''}
   \<and> map_of [(''action'', JString ''update'')] ''enabled'' = None
   \<and> handle_request fragment_loads (incoming (request_post_alarm ''{"action":"update"}''))
         (start_motor (boot False False False)) =
       (\<lparr>received = Inr (request_post_alarm ''{"action":"update"}''),
         sent = [''HTTP/1.1 200 OK\<newline>Content-Type: application/json\<newline>Content-Length: 21\<newline>Connection: close\<newline>\<newline>{"status": "success"}''],
         closed = True\<rparr>,
        \<lparr>motor_running = False, motor_speed = 128, pin1 = False, pin2 = False, led = False,
         pin_writes = [(MOTOR_PIN1, True), (MOTOR_PIN2, False), (STATUS_LED, True),
                       (MOTOR_PIN1, False), (MOTOR_PIN2, False), (STATUS_LED, False)]\<rparr>)\<close>
proof -
  have h3: \<open>fragment_loads (body_loop (split_sep (CHR 0x0A) (request_post_alarm ''{"action":"update"}'')) 0) =
       Inr (JObject [(''action'', JString ''update'')])\<close>
    by (simp only: body_update loads_update)
  have h4: "map_of [(''action'', JString ''update'')] ''action'' = Some (JString ''update'')"
    and h5: "''update'' \<in> {''add'', ''update'', ''toggle''}"
    and h6: "map_of [(''action'', JString ''update'')] ''enabled'' = None"
    by simp_all
  have board: "stop_motor (start_motor (boot False False False)) =
        \<lparr>motor_running = False, motor_speed = 128, pin1 = False, pin2 = False, led = False,
         pin_writes = [(MOTOR_PIN1, True), (MOTOR_PIN2, False), (STATUS_LED, True),
                       (MOTOR_PIN1, False), (MOTOR_PIN2, False), (STATUS_LED, False)]\<rparr>"
    by (simp add: boot_def start_motor_eq stop_motor_eq)
  show ?thesis
    using C10_alarm_enabled_defaults_false [where loads = fragment_loads
          and c = \<open>incoming (request_post_alarm ''{"action":"update"}'')\<close>
          and s = "start_motor (boot False False False)",
        OF received_incoming line_post_alarm h3 h4 h5 h6]
      received_incoming line_post_alarm h3 h4 h5 h6
    by (simp only: board) (simp add: incoming_def)
qed

end
